theory Spec2Isabelle
  imports Complex_Main
begin

section \<open>Numbers\<close>

text \<open>
  The TypeScript type \<open>number\<close> holds the finite values, the two infinities and
  NaN. A finite value is embedded by the real number it denotes, and an arithmetic
  operation on finite values returns the exact real result: the rounding of a result to
  the nearest double and the overflow of a large result to an infinity are not part of the
  embedding. The two zeros are one value, read as \<open>+0\<close> where an operation looks at the sign
  of a zero. Everything else follows ECMAScript: an operation whose operand is NaN
  returns NaN, a division by zero returns an infinity or NaN, every comparison with
  NaN is false.
\<close>

datatype number = NaN | NInf | PInf | Fin real

fun num_neg :: "number \<Rightarrow> number" where
  "num_neg NaN = NaN"
| "num_neg NInf = PInf"
| "num_neg PInf = NInf"
| "num_neg (Fin a) = Fin (- a)"

text \<open>\<open>a + b\<close>\<close>

fun num_add :: "number \<Rightarrow> number \<Rightarrow> number" where
  "num_add (Fin a) (Fin b) = Fin (a + b)"
| "num_add NaN _ = NaN"
| "num_add _ NaN = NaN"
| "num_add PInf NInf = NaN"
| "num_add NInf PInf = NaN"
| "num_add PInf _ = PInf"
| "num_add _ PInf = PInf"
| "num_add NInf _ = NInf"
| "num_add _ NInf = NInf"

text \<open>\<open>a - b\<close>\<close>

definition num_sub :: "number \<Rightarrow> number \<Rightarrow> number" where
  "num_sub a b = num_add a (num_neg b)"

text \<open>The infinity that has the sign of \<open>s\<close> (for \<open>s \<noteq> 0\<close>).\<close>

definition signed_inf :: "real \<Rightarrow> number" where
  "signed_inf s = (if 0 < s then PInf else NInf)"

text \<open>\<open>a * b\<close>: an infinity times zero is NaN.\<close>

fun num_mul :: "number \<Rightarrow> number \<Rightarrow> number" where
  "num_mul (Fin a) (Fin b) = Fin (a * b)"
| "num_mul NaN _ = NaN"
| "num_mul _ NaN = NaN"
| "num_mul (Fin a) PInf = (if a = 0 then NaN else signed_inf a)"
| "num_mul (Fin a) NInf = (if a = 0 then NaN else signed_inf (- a))"
| "num_mul PInf (Fin b) = (if b = 0 then NaN else signed_inf b)"
| "num_mul NInf (Fin b) = (if b = 0 then NaN else signed_inf (- b))"
| "num_mul PInf PInf = PInf"
| "num_mul PInf NInf = NInf"
| "num_mul NInf PInf = NInf"
| "num_mul NInf NInf = PInf"

text \<open>
  \<open>a / b\<close>: zero by zero and infinity by infinity are NaN, a non-zero finite value by zero
  is an infinity, a finite value by an infinity is zero.
\<close>

fun num_div :: "number \<Rightarrow> number \<Rightarrow> number" where
  "num_div (Fin a) (Fin b) =
     (if b = 0 then (if a = 0 then NaN else signed_inf a) else Fin (a / b))"
| "num_div NaN _ = NaN"
| "num_div _ NaN = NaN"
| "num_div (Fin a) PInf = Fin 0"
| "num_div (Fin a) NInf = Fin 0"
| "num_div PInf (Fin b) = (if 0 \<le> b then PInf else NInf)"
| "num_div NInf (Fin b) = (if 0 \<le> b then NInf else PInf)"
| "num_div PInf PInf = NaN"
| "num_div PInf NInf = NaN"
| "num_div NInf PInf = NaN"
| "num_div NInf NInf = NaN"

text \<open>\<open>a >= b\<close>, \<open>a <= b\<close>, \<open>a > b\<close>, \<open>a < b\<close>\<close>

fun num_ge :: "number \<Rightarrow> number \<Rightarrow> bool" where
  "num_ge (Fin a) (Fin b) = (b \<le> a)"
| "num_ge NaN _ = False"
| "num_ge _ NaN = False"
| "num_ge PInf _ = True"
| "num_ge _ NInf = True"
| "num_ge _ PInf = False"
| "num_ge NInf _ = False"

definition num_le :: "number \<Rightarrow> number \<Rightarrow> bool" where
  "num_le a b = num_ge b a"



text \<open>
  \<open>Math.pow(b, y)\<close>, after the cases of ECMAScript's \<open>Number::exponentiate\<close>: the
  exponent NaN gives NaN, the exponent zero gives 1 for every base (NaN too), then the
  base NaN gives NaN; then come the infinite bases, the base zero, the infinite exponents;
  a negative finite base has a power for an integral exponent only, and NaN otherwise.
\<close>

definition is_integral :: "real \<Rightarrow> bool" where
  "is_integral y = (of_int \<lfloor>y\<rfloor> = y)"

definition is_odd_integer :: "real \<Rightarrow> bool" where
  "is_odd_integer y = (is_integral y \<and> odd \<lfloor>y\<rfloor>)"

fun Math_pow :: "number \<Rightarrow> number \<Rightarrow> number" where
  "Math_pow b NaN = NaN"
| "Math_pow b (Fin y) =
     (if y = 0 then Fin 1
      else case b of
        NaN \<Rightarrow> NaN
      | PInf \<Rightarrow> (if 0 < y then PInf else Fin 0)
      | NInf \<Rightarrow> (if 0 < y then (if is_odd_integer y then NInf else PInf) else Fin 0)
      | Fin x \<Rightarrow>
          (if x = 0 then (if 0 < y then Fin 0 else PInf)
           else if 0 < x then Fin (x powr y)
           else if is_integral y then Fin (power_int x \<lfloor>y\<rfloor>)
           else NaN))"
| "Math_pow b PInf =
     (case b of
        NaN \<Rightarrow> NaN
      | PInf \<Rightarrow> PInf
      | NInf \<Rightarrow> PInf
      | Fin x \<Rightarrow> (if 1 < \<bar>x\<bar> then PInf else if \<bar>x\<bar> = 1 then NaN else Fin 0))"
| "Math_pow b NInf =
     (case b of
        NaN \<Rightarrow> NaN
      | PInf \<Rightarrow> Fin 0
      | NInf \<Rightarrow> Fin 0
      | Fin x \<Rightarrow> (if 1 < \<bar>x\<bar> then Fin 0 else if \<bar>x\<bar> = 1 then NaN else PInf))"

section \<open>Strings\<close>

text \<open>
  A coin symbol is an ASCII string. \<open>toUpperCase\<close> maps the letters \<open>a\<close> to \<open>z\<close> to
  \<open>A\<close> to \<open>Z\<close> and leaves every other character as it is; the case mappings of
  Unicode beyond ASCII are not part of the embedding.
\<close>

definition toUpperCase_char :: "char \<Rightarrow> char" where
  "toUpperCase_char c =
     (case map_of (zip ''abcdefghijklmnopqrstuvwxyz'' ''ABCDEFGHIJKLMNOPQRSTUVWXYZ'') c of
        None \<Rightarrow> c
      | Some u \<Rightarrow> u)"

definition toUpperCase :: "string \<Rightarrow> string" where
  "toUpperCase s = map toUpperCase_char s"

section \<open>The calculators\<close>

text \<open>
  An optional field (\<open>compoundingFrequency?\<close>, \<open>apy?\<close>) is an \<open>option\<close>: \<open>None\<close> is
  the field left out.
\<close>

record StakingResult =
  principal :: number
  interest :: number
  total :: number
  apr :: number
  apy :: "number option"

record StakingParameters =
  principal :: number
  apr :: number
  days :: number
  compoundingFrequency :: "number option"

text \<open>
  \<open>aprToApy(apr, compoundingFrequency = 365)\<close>: the second argument is \<open>None\<close> when
  the caller leaves it out.
\<close>

definition aprToApy :: "number \<Rightarrow> number option \<Rightarrow> number" where
  "aprToApy a compoundingFrequency' =
     (let cf = (case compoundingFrequency' of None \<Rightarrow> Fin 365 | Some c \<Rightarrow> c);
          periodicRate = num_div (num_div a (Fin 100)) cf;
          apy' = num_sub (Math_pow (num_add (Fin 1) periodicRate) cf) (Fin 1)
      in num_mul apy' (Fin 100))"

definition calculateSimpleInterest :: "StakingParameters \<Rightarrow> StakingResult" where
  "calculateSimpleInterest params =
     (let principal' = StakingParameters.principal params;
          apr' = StakingParameters.apr params;
          days' = days params;
          dailyRate = num_div (num_div apr' (Fin 100)) (Fin 365);
          interest' = num_mul (num_mul principal' dailyRate) days';
          total' = num_add principal' interest'
      in \<lparr> StakingResult.principal = principal', interest = interest', total = total',
           StakingResult.apr = apr', apy = None \<rparr>)"

text \<open>
  The two local values of \<open>calculateCompoundInterest\<close> that the specification speaks
  of, as functions of what they are computed from.
\<close>

definition periodicRate_of :: "number \<Rightarrow> number \<Rightarrow> number" where
  "periodicRate_of apr' cf = num_mul (num_div (num_div apr' (Fin 100)) (Fin 365)) cf"

definition periods_of :: "number \<Rightarrow> number \<Rightarrow> number" where
  "periods_of days' cf = num_div days' cf"

definition calculateCompoundInterest :: "StakingParameters \<Rightarrow> StakingResult" where
  "calculateCompoundInterest params =
     (let principal' = StakingParameters.principal params;
          apr' = StakingParameters.apr params;
          days' = days params;
          cf = (case compoundingFrequency params of None \<Rightarrow> Fin 1 | Some c \<Rightarrow> c);
          periodicRate = periodicRate_of apr' cf;
          periods = periods_of days' cf;
          total' = num_mul principal' (Math_pow (num_add (Fin 1) periodicRate) periods);
          interest' = num_sub total' principal';
          apy' = aprToApy apr' (Some (num_div (Fin 365) cf))
      in \<lparr> StakingResult.principal = principal', interest = interest', total = total',
           StakingResult.apr = apr', apy = Some apy' \<rparr>)"

definition calculateStakingRewards :: "StakingParameters \<Rightarrow> bool \<Rightarrow> StakingResult" where
  "calculateStakingRewards params useCompound =
     (if useCompound then calculateCompoundInterest params
      else calculateSimpleInterest params)"

text \<open>
  The parameter of \<open>getCompoundingFrequency\<close> is declared as one of five string
  literals; the \<open>default\<close> branch of the \<open>switch\<close> answers every other value,
  so the argument is a string.
\<close>

definition getCompoundingFrequency :: "string \<Rightarrow> number" where
  "getCompoundingFrequency frequency =
     (if frequency = ''daily'' then Fin 1
      else if frequency = ''weekly'' then Fin 7
      else if frequency = ''monthly'' then Fin 30
      else if frequency = ''quarterly'' then Fin 90
      else if frequency = ''annually'' then Fin 365
      else Fin 1)"

section \<open>The staking constraints\<close>

text \<open>
  \<open>maxDays\<close> is \<open>number | null\<close>: \<open>None\<close> is \<open>null\<close>. The fields \<open>notes\<close> and
  \<open>stakingRisks\<close> hold display text (not all of it ASCII) that no function reads; they
  are left out of the record.
\<close>

record StakingPeriod =
  name :: string
  minDays :: number
  maxDays :: "number option"
  apr :: "number option"

record CoinStakingConstraints =
  symbol :: string
  name :: string
  minStakeAmount :: number
  unbondingPeriod :: number
  stakingPeriods :: "StakingPeriod list"
  stakingMethod :: "string option"
  rewardType :: "string option"

text \<open>
  A period as the table writes them, with a name and two bounds and no \<open>apr\<close> of its
  own. A number of the table is the decimal that the source shows: the double that a
  literal such as \<open>0.01\<close> denotes is the one nearest to it, no double lies between
  the two, and so a comparison of a double with either has the same result.
\<close>

definition mk_period :: "string \<Rightarrow> number \<Rightarrow> number option \<Rightarrow> StakingPeriod" where
  "mk_period n lo hi =
     \<lparr> StakingPeriod.name = n, minDays = lo, maxDays = hi, StakingPeriod.apr = None \<rparr>"

definition stakingConstraints :: "CoinStakingConstraints list" where
  "stakingConstraints =
   [ \<lparr> symbol = ''ETH'', name = ''Ethereum'', minStakeAmount = Fin 0.01,
       unbondingPeriod = Fin 0,
       stakingPeriods = [mk_period ''Flexible'' (Fin 1) None],
       stakingMethod = Some ''Liquid Staking'', rewardType = Some ''ETH'' \<rparr>,
     \<lparr> symbol = ''SOL'', name = ''Solana'', minStakeAmount = Fin 0.1,
       unbondingPeriod = Fin 2,
       stakingPeriods = [mk_period ''Flexible'' (Fin 1) None],
       stakingMethod = Some ''Delegation'', rewardType = Some ''SOL'' \<rparr>,
     \<lparr> symbol = ''ADA'', name = ''Cardano'', minStakeAmount = Fin 5,
       unbondingPeriod = Fin 0,
       stakingPeriods = [mk_period ''Flexible'' (Fin 1) None],
       stakingMethod = Some ''Delegation'', rewardType = Some ''ADA'' \<rparr>,
     \<lparr> symbol = ''DOT'', name = ''Polkadot'', minStakeAmount = Fin 1,
       unbondingPeriod = Fin 28,
       stakingPeriods = [mk_period ''Bonded'' (Fin 28) None],
       stakingMethod = Some ''Bonding'', rewardType = Some ''DOT'' \<rparr>,
     \<lparr> symbol = ''AVAX'', name = ''Avalanche'', minStakeAmount = Fin 1,
       unbondingPeriod = Fin 14,
       stakingPeriods = [mk_period ''Flexible'' (Fin 14) (Some (Fin 365))],
       stakingMethod = Some ''Delegation'', rewardType = Some ''AVAX'' \<rparr>,
     \<lparr> symbol = ''ATOM'', name = ''Cosmos'', minStakeAmount = Fin 0.1,
       unbondingPeriod = Fin 21,
       stakingPeriods = [mk_period ''Bonded'' (Fin 21) None],
       stakingMethod = Some ''Delegation'', rewardType = Some ''ATOM'' \<rparr>,
     \<lparr> symbol = ''ALGO'', name = ''Algorand'', minStakeAmount = Fin 1,
       unbondingPeriod = Fin 0,
       stakingPeriods = [mk_period ''Flexible'' (Fin 1) None],
       stakingMethod = Some ''Participation'', rewardType = Some ''ALGO'' \<rparr> ]"

text \<open>
  \<open>find\<close> returns the first entry with the symbol, or \<open>undefined\<close>, which \<open>|| null\<close>
  turns into \<open>null\<close>: \<open>None\<close> here. An entry is an object, so it is never falsy.
\<close>

definition getStakingConstraints :: "string \<Rightarrow> CoinStakingConstraints option" where
  "getStakingConstraints symbol' =
     (let normalizedSymbol = toUpperCase symbol'
      in find (\<lambda>coin. symbol coin = normalizedSymbol) stakingConstraints)"

definition getAllStakingConstraints :: "CoinStakingConstraints list" where
  "getAllStakingConstraints = stakingConstraints"

definition isValidStakeAmount :: "string \<Rightarrow> number \<Rightarrow> bool" where
  "isValidStakeAmount symbol' amount =
     (case getStakingConstraints symbol' of
        None \<Rightarrow> True
      | Some constraints \<Rightarrow> num_ge amount (minStakeAmount constraints))"

definition isValidStakeDuration :: "string \<Rightarrow> number \<Rightarrow> bool" where
  "isValidStakeDuration symbol' days' =
     (case getStakingConstraints symbol' of
        None \<Rightarrow> True
      | Some constraints \<Rightarrow>
          list_ex (\<lambda>period. num_ge days' (minDays period) \<and>
                     (case maxDays period of None \<Rightarrow> True | Some m \<Rightarrow> num_le days' m))
            (stakingPeriods constraints))"

section \<open>Interest and yield\<close>


































section \<open>The compounding frequency\<close>

text \<open>
  C8. \<open>getCompoundingFrequency\<close> maps daily to 1, weekly to 7, monthly to 30, quarterly
  to 90 and annually to 365, and every other argument to 1. It is a function of its
  argument alone and has a value at every argument.
\<close>

theorem getCompoundingFrequency_table:
  "getCompoundingFrequency ''daily'' = Fin 1 \<and>
   getCompoundingFrequency ''weekly'' = Fin 7 \<and>
   getCompoundingFrequency ''monthly'' = Fin 30 \<and>
   getCompoundingFrequency ''quarterly'' = Fin 90 \<and>
   getCompoundingFrequency ''annually'' = Fin 365 \<and>
   (f \<notin> {''daily'', ''weekly'', ''monthly'', ''quarterly'', ''annually''} \<longrightarrow>
      getCompoundingFrequency f = Fin 1)"
  by (simp add: getCompoundingFrequency_def)

theorem getCompoundingFrequency_table_witness:
  "''hourly'' \<notin> {''daily'', ''weekly'', ''monthly'', ''quarterly'', ''annually''} \<and>
   getCompoundingFrequency ''hourly'' = Fin 1"
  using getCompoundingFrequency_table [of "''hourly''"] by simp

section \<open>Lookup and validation\<close>

lemma find_distinct_key:
  "distinct (map f xs) \<Longrightarrow> x \<in> set xs \<Longrightarrow> find (\<lambda>y. f y = f x) xs = Some x"
  by (induction xs) (auto simp: image_iff)

lemma distinct_symbols: "distinct (map symbol stakingConstraints)"
  by (simp add: stakingConstraints_def)

lemma getStakingConstraints_find:
  "getStakingConstraints s = find (\<lambda>coin. symbol coin = toUpperCase s) stakingConstraints"
  by (simp add: getStakingConstraints_def)

lemma getStakingConstraints_None_iff:
  "getStakingConstraints s = None \<longleftrightarrow> (\<forall>c \<in> set stakingConstraints. symbol c \<noteq> toUpperCase s)"
  by (auto simp: getStakingConstraints_find find_None_iff)

lemma getStakingConstraints_Some_iff:
  "getStakingConstraints s = Some c \<longleftrightarrow> c \<in> set stakingConstraints \<and> symbol c = toUpperCase s"
proof
  assume "getStakingConstraints s = Some c"
  then show "c \<in> set stakingConstraints \<and> symbol c = toUpperCase s"
    by (auto simp: getStakingConstraints_find find_Some_iff)
next
  assume h: "c \<in> set stakingConstraints \<and> symbol c = toUpperCase s"
  then have "find (\<lambda>y. symbol y = symbol c) stakingConstraints = Some c"
    using find_distinct_key [OF distinct_symbols] by blast
  with h show "getStakingConstraints s = Some c"
    by (simp add: getStakingConstraints_find)
qed

lemma toUpperCase_DOT: "toUpperCase ''DOT'' = ''DOT''" "toUpperCase ''dot'' = ''DOT''"
  "toUpperCase ''xyz-unknown'' = ''XYZ-UNKNOWN''"
  by (simp_all add: toUpperCase_def toUpperCase_char_def)

lemma num_ge_trans: "num_ge c b \<Longrightarrow> num_ge b a \<Longrightarrow> num_ge c a"
  by (cases a; cases b; cases c) auto

lemma getStakingConstraints_DOT: "getStakingConstraints ''DOT'' = Some (stakingConstraints ! 3)"
  by (simp add: getStakingConstraints_find toUpperCase_DOT stakingConstraints_def)

lemma getStakingConstraints_unknown: "getStakingConstraints ''xyz-unknown'' = None"
  by (simp add: getStakingConstraints_find toUpperCase_DOT stakingConstraints_def)

lemma DOT_fields:
  "minStakeAmount (stakingConstraints ! 3) = Fin 1"
  "stakingPeriods (stakingConstraints ! 3) = [mk_period ''Bonded'' (Fin 28) None]"
  by (simp_all add: stakingConstraints_def)

lemma isValidStakeDuration_Some:
  "getStakingConstraints s = Some c \<Longrightarrow>
   isValidStakeDuration s d =
     (\<exists>p \<in> set (stakingPeriods c).
        num_le (minDays p) d \<and> (case maxDays p of None \<Rightarrow> True | Some m \<Rightarrow> num_le d m))"
  by (simp add: isValidStakeDuration_def list_ex_iff num_le_def)

text \<open>
  C4. \<open>isValidStakeDuration\<close> is true when no entry of the registry has the
  upper-cased symbol. When an entry has it, the result is true exactly when the days lie
  in one of the entry's periods at least: not below \<open>minDays\<close>, and not above
  \<open>maxDays\<close> unless \<open>maxDays\<close> is \<open>null\<close>; both bounds are inclusive. For
  \<open>DOT\<close>, 27 days are refused, 28 and 10000 days are accepted.
\<close>

theorem isValidStakeDuration_windows:
  "(toUpperCase s \<notin> symbol ` set stakingConstraints \<longrightarrow> isValidStakeDuration s d) \<and>
   (\<forall>c \<in> set stakingConstraints. symbol c = toUpperCase s \<longrightarrow>
      isValidStakeDuration s d =
        (\<exists>p \<in> set (stakingPeriods c).
           num_le (minDays p) d \<and>
           (case maxDays p of None \<Rightarrow> True | Some m \<Rightarrow> num_le d m))) \<and>
   \<not> isValidStakeDuration ''DOT'' (Fin 27) \<and>
   isValidStakeDuration ''DOT'' (Fin 28) \<and>
   isValidStakeDuration ''DOT'' (Fin 10000)"
proof (intro conjI impI ballI)
  assume "toUpperCase s \<notin> symbol ` set stakingConstraints"
  then have "getStakingConstraints s = None"
    by (metis getStakingConstraints_None_iff imageI)
  then show "isValidStakeDuration s d"
    by (simp add: isValidStakeDuration_def)
next
  fix c
  assume "c \<in> set stakingConstraints" and "symbol c = toUpperCase s"
  then have "getStakingConstraints s = Some c"
    by (simp add: getStakingConstraints_Some_iff)
  then show "isValidStakeDuration s d =
      (\<exists>p \<in> set (stakingPeriods c).
         num_le (minDays p) d \<and>
         (case maxDays p of None \<Rightarrow> True | Some m \<Rightarrow> num_le d m))"
    by (rule isValidStakeDuration_Some)
next
  show "\<not> isValidStakeDuration ''DOT'' (Fin 27)"
    by (simp add: isValidStakeDuration_Some [OF getStakingConstraints_DOT] DOT_fields
        mk_period_def num_le_def)
  show "isValidStakeDuration ''DOT'' (Fin 28)"
    by (simp add: isValidStakeDuration_Some [OF getStakingConstraints_DOT] DOT_fields
        mk_period_def num_le_def)
  show "isValidStakeDuration ''DOT'' (Fin 10000)"
    by (simp add: isValidStakeDuration_Some [OF getStakingConstraints_DOT] DOT_fields
        mk_period_def num_le_def)
qed

lemma AVAX_entry:
  "stakingConstraints ! 4 \<in> set stakingConstraints"
  "symbol (stakingConstraints ! 4) = ''AVAX''"
  "stakingPeriods (stakingConstraints ! 4) = [mk_period ''Flexible'' (Fin 14) (Some (Fin 365))]"
  by (simp_all add: stakingConstraints_def)

lemma toUpperCase_examples:
  "toUpperCase ''avax'' = ''AVAX''" "toUpperCase ''xyz'' = ''XYZ''"
  by (simp_all add: toUpperCase_def toUpperCase_char_def)

lemma symbols_of_registry:
  "symbol ` set stakingConstraints = {''ETH'', ''SOL'', ''ADA'', ''DOT'', ''AVAX'', ''ATOM'', ''ALGO''}"
  by (simp add: stakingConstraints_def)

theorem isValidStakeDuration_windows_witness:
  "toUpperCase ''xyz'' \<notin> symbol ` set stakingConstraints \<and>
   isValidStakeDuration ''xyz'' (Fin 3) \<and>
   stakingConstraints ! 4 \<in> set stakingConstraints \<and>
   symbol (stakingConstraints ! 4) = toUpperCase ''avax'' \<and>
   isValidStakeDuration ''avax'' (Fin 365) \<and>
   \<not> isValidStakeDuration ''avax'' (Fin 366)"
proof -
  have unknown: "toUpperCase ''xyz'' \<notin> symbol ` set stakingConstraints"
    by (simp add: toUpperCase_examples symbols_of_registry)
  have entry: "stakingConstraints ! 4 \<in> set stakingConstraints"
    and key: "symbol (stakingConstraints ! 4) = toUpperCase ''avax''"
    by (simp_all add: AVAX_entry toUpperCase_examples)
  have "isValidStakeDuration ''xyz'' (Fin 3)"
    using isValidStakeDuration_windows [of "''xyz''" "Fin 3"] unknown by blast
  moreover have "isValidStakeDuration ''avax'' d =
      (\<exists>p \<in> set (stakingPeriods (stakingConstraints ! 4)).
         num_le (minDays p) d \<and>
         (case maxDays p of None \<Rightarrow> True | Some m \<Rightarrow> num_le d m))" for d
    using isValidStakeDuration_windows [of "''avax''" d] entry key by blast
  then have "isValidStakeDuration ''avax'' (Fin 365) \<and> \<not> isValidStakeDuration ''avax'' (Fin 366)"
    by (simp add: AVAX_entry mk_period_def num_le_def)
  ultimately show ?thesis
    using unknown entry key by blast
qed

lemma isValidStakeAmount_None:
  "getStakingConstraints s = None \<Longrightarrow> isValidStakeAmount s amount"
  by (simp add: isValidStakeAmount_def)

lemma isValidStakeAmount_Some:
  "getStakingConstraints s = Some c \<Longrightarrow>
   isValidStakeAmount s amount = num_ge amount (minStakeAmount c)"
  by (simp add: isValidStakeAmount_def)

text \<open>
  C5. \<open>getStakingConstraints\<close> looks the upper-cased symbol up, so two symbols that
  differ in case only get the same answer; it returns the entry that has exactly this
  symbol, and \<open>null\<close> when there is none. \<open>isValidStakeAmount\<close> is true when there is
  no entry, and otherwise it is the test \<open>amount >= minStakeAmount\<close> on the entry. The
  unknown symbol \<open>xyz-unknown\<close> has no entry and accepts the amount \<open>-5\<close>;
  \<open>DOT\<close> refuses 0.5 and accepts 1.
\<close>

theorem stake_amount_lookup:
  "getStakingConstraints s = find (\<lambda>coin. symbol coin = toUpperCase s) stakingConstraints \<and>
   (toUpperCase s = toUpperCase t \<longrightarrow> getStakingConstraints s = getStakingConstraints t) \<and>
   (getStakingConstraints s = Some c \<longleftrightarrow>
      c \<in> set stakingConstraints \<and> symbol c = toUpperCase s) \<and>
   (getStakingConstraints s = None \<longleftrightarrow>
      toUpperCase s \<notin> symbol ` set stakingConstraints) \<and>
   (getStakingConstraints s = None \<longrightarrow> isValidStakeAmount s amount) \<and>
   (getStakingConstraints s = Some c \<longrightarrow>
      isValidStakeAmount s amount = num_ge amount (minStakeAmount c)) \<and>
   getStakingConstraints ''dot'' = getStakingConstraints ''DOT'' \<and>
   getStakingConstraints ''xyz-unknown'' = None \<and>
   isValidStakeAmount ''xyz-unknown'' (Fin (- 5)) \<and>
   \<not> isValidStakeAmount ''DOT'' (Fin 0.5) \<and>
   isValidStakeAmount ''DOT'' (Fin 1)"
proof (intro conjI impI)
  show "getStakingConstraints s = find (\<lambda>coin. symbol coin = toUpperCase s) stakingConstraints"
    by (rule getStakingConstraints_find)
  show "getStakingConstraints s = getStakingConstraints t" if "toUpperCase s = toUpperCase t"
    using that by (simp add: getStakingConstraints_find)
  show "getStakingConstraints s = Some c \<longleftrightarrow>
      c \<in> set stakingConstraints \<and> symbol c = toUpperCase s"
    by (rule getStakingConstraints_Some_iff)
  show "getStakingConstraints s = None \<longleftrightarrow>
      toUpperCase s \<notin> symbol ` set stakingConstraints"
    unfolding getStakingConstraints_None_iff by (metis (no_types) image_iff)
  show "isValidStakeAmount s amount" if "getStakingConstraints s = None"
    using that by (rule isValidStakeAmount_None)
  show "isValidStakeAmount s amount = num_ge amount (minStakeAmount c)"
    if "getStakingConstraints s = Some c"
    using that by (rule isValidStakeAmount_Some)
  show "getStakingConstraints ''dot'' = getStakingConstraints ''DOT''"
    by (simp add: getStakingConstraints_find toUpperCase_DOT)
  show "getStakingConstraints ''xyz-unknown'' = None"
    by (rule getStakingConstraints_unknown)
  show "isValidStakeAmount ''xyz-unknown'' (Fin (- 5))"
    by (rule isValidStakeAmount_None [OF getStakingConstraints_unknown])
  show "\<not> isValidStakeAmount ''DOT'' (Fin 0.5)"
    by (simp add: isValidStakeAmount_Some [OF getStakingConstraints_DOT] DOT_fields)
  show "isValidStakeAmount ''DOT'' (Fin 1)"
    by (simp add: isValidStakeAmount_Some [OF getStakingConstraints_DOT] DOT_fields)
qed

theorem stake_amount_lookup_witness:
  "toUpperCase ''dot'' = toUpperCase ''DOT'' \<and>
   getStakingConstraints ''dot'' = getStakingConstraints ''DOT'' \<and>
   getStakingConstraints ''dot'' = Some (stakingConstraints ! 3) \<and>
   isValidStakeAmount ''dot'' (Fin 2) = num_ge (Fin 2) (minStakeAmount (stakingConstraints ! 3)) \<and>
   isValidStakeAmount ''dot'' (Fin 2) \<and>
   getStakingConstraints ''btc'' = None \<and>
   isValidStakeAmount ''btc'' (Fin 0)"
proof -
  have up: "toUpperCase ''dot'' = toUpperCase ''DOT''" "toUpperCase ''btc'' = ''BTC''"
    by (simp_all add: toUpperCase_def toUpperCase_char_def)
  have same: "getStakingConstraints ''dot'' = getStakingConstraints ''DOT''"
    using stake_amount_lookup [of "''dot''" "''DOT''"] up by blast
  then have dot: "getStakingConstraints ''dot'' = Some (stakingConstraints ! 3)"
    by (simp add: getStakingConstraints_DOT)
  then have amount: "isValidStakeAmount ''dot'' (Fin 2) =
      num_ge (Fin 2) (minStakeAmount (stakingConstraints ! 3))"
    using stake_amount_lookup [of "''dot''" _ "stakingConstraints ! 3" "Fin 2"] by blast
  then have valid: "isValidStakeAmount ''dot'' (Fin 2)"
    by (simp add: DOT_fields)
  have "toUpperCase ''btc'' \<notin> symbol ` set stakingConstraints"
    by (simp add: up symbols_of_registry)
  then have btc: "getStakingConstraints ''btc'' = None"
    using stake_amount_lookup [of "''btc''"] by blast
  then have "isValidStakeAmount ''btc'' (Fin 0)"
    using stake_amount_lookup [of "''btc''" _ _ "Fin 0"] by blast
  with up same dot amount valid btc show ?thesis
    by blast
qed

section \<open>The invariant of the registry\<close>

text \<open>
  C9. Every entry of the registry has a period at least; every period has
  \<open>minDays >= 0\<close>, and a \<open>maxDays\<close> that is not \<open>null\<close> is \<open>>= minDays\<close>.
\<close>

theorem stakingConstraints_invariant:
  "\<forall>c \<in> set stakingConstraints.
     stakingPeriods c \<noteq> [] \<and>
     (\<forall>p \<in> set (stakingPeriods c).
        num_ge (minDays p) (Fin 0) \<and>
        (\<forall>m. maxDays p = Some m \<longrightarrow> num_ge m (minDays p)))"
  by (simp add: stakingConstraints_def mk_period_def)

theorem stakingConstraints_invariant_witness:
  "stakingConstraints ! 4 \<in> set stakingConstraints \<and>
   stakingPeriods (stakingConstraints ! 4) \<noteq> [] \<and>
   mk_period ''Flexible'' (Fin 14) (Some (Fin 365)) \<in> set (stakingPeriods (stakingConstraints ! 4)) \<and>
   maxDays (mk_period ''Flexible'' (Fin 14) (Some (Fin 365))) = Some (Fin 365) \<and>
   num_ge (minDays (mk_period ''Flexible'' (Fin 14) (Some (Fin 365)))) (Fin 0) \<and>
   num_ge (Fin 365) (minDays (mk_period ''Flexible'' (Fin 14) (Some (Fin 365))))"
proof -
  let ?p = "mk_period ''Flexible'' (Fin 14) (Some (Fin 365))"
  have entry: "stakingConstraints ! 4 \<in> set stakingConstraints"
    by (rule AVAX_entry)
  have period: "?p \<in> set (stakingPeriods (stakingConstraints ! 4))"
    by (simp add: AVAX_entry)
  have top: "maxDays ?p = Some (Fin 365)"
    by (simp add: mk_period_def)
  from stakingConstraints_invariant entry
  have inv: "stakingPeriods (stakingConstraints ! 4) \<noteq> [] \<and>
     (\<forall>p \<in> set (stakingPeriods (stakingConstraints ! 4)).
        num_ge (minDays p) (Fin 0) \<and>
        (\<forall>m. maxDays p = Some m \<longrightarrow> num_ge m (minDays p)))"
    by (rule bspec)
  with period top have "num_ge (minDays ?p) (Fin 0) \<and> num_ge (Fin 365) (minDays ?p)"
    by blast
  with entry period top inv show ?thesis
    by blast
qed

section \<open>Larger amounts stay valid\<close>

text \<open>
  C10. An amount above a valid amount is valid: if \<open>a <= b\<close> and
  \<open>isValidStakeAmount(symbol, a)\<close> then \<open>isValidStakeAmount(symbol, b)\<close>, for every
  symbol.
\<close>

theorem isValidStakeAmount_upward_closed:
  "num_le a b \<Longrightarrow> isValidStakeAmount s a \<Longrightarrow> isValidStakeAmount s b"
proof (cases "getStakingConstraints s")
  case None
  then show ?thesis
    by (rule isValidStakeAmount_None)
next
  case (Some c)
  assume "num_le a b" and "isValidStakeAmount s a"
  then have "num_ge b a" and "num_ge a (minStakeAmount c)"
    by (simp_all add: num_le_def isValidStakeAmount_Some [OF Some])
  then have "num_ge b (minStakeAmount c)"
    by (rule num_ge_trans)
  then show ?thesis
    by (simp add: isValidStakeAmount_Some [OF Some])
qed

theorem isValidStakeAmount_upward_closed_witness:
  "num_le (Fin 1) (Fin 2) \<and> isValidStakeAmount ''DOT'' (Fin 1) \<and>
   isValidStakeAmount ''DOT'' (Fin 2)"
proof -
  have le: "num_le (Fin 1) (Fin 2)"
    by (simp add: num_le_def)
  have one: "isValidStakeAmount ''DOT'' (Fin 1)"
    by (simp add: isValidStakeAmount_Some [OF getStakingConstraints_DOT] DOT_fields)
  from le one have "isValidStakeAmount ''DOT'' (Fin 2)"
    by (rule isValidStakeAmount_upward_closed)
  with le one show ?thesis
    by blast
qed

end
